theory Spec2Isabelle
  imports Main
begin

section \<open>Data model\<close>

text \<open>
  The structs that \<^verbatim>\<open>internal/processing/account/follow.go\<close> reads and writes.
  A Go pointer field that may be nil (\<^verbatim>\<open>*bool\<close>) is an \<open>option\<close>; struct fields
  carry a prefix because record fields share one name space.
\<close>

record Account =
  acct_ID :: string
  acct_Username :: string
  acct_Domain :: string
  acct_Locked :: "bool option"

record FollowRequest =
  fr_ID :: string
  fr_AccountID :: string
  fr_TargetAccountID :: string
  fr_ShowReblogs :: "bool option"
  fr_URI :: string
  fr_Notify :: "bool option"

record Follow =
  fo_ID :: string
  fo_AccountID :: string
  fo_TargetAccountID :: string
  fo_ShowReblogs :: "bool option"
  fo_URI :: string
  fo_Notify :: "bool option"

record Block =
  bl_AccountID :: string
  bl_TargetAccountID :: string

text \<open>The API form \<^verbatim>\<open>apimodel.AccountFollowRequest\<close>.\<close>

record AccountFollowRequest =
  form_ID :: string
  form_Reblogs :: "bool option"
  form_Notify :: "bool option"

text \<open>
  Modelled from the spec: the relationship snapshot \<^verbatim>\<open>apimodel.Relationship\<close>
  (its declaration is not among the sources), with the fields the spec names:
  following, requested, blocked-by-me and blocking-me, for a target id.
\<close>

record Relationship =
  rel_ID :: string
  rel_Following :: bool
  rel_Requested :: bool
  rel_Blocking :: bool
  rel_BlockedBy :: bool

text \<open>
  The payload of a dispatch message is an \<^verbatim>\<open>interface{}\<close> in the source; the two
  concrete types that follow.go stores there are the two constructors.
\<close>

datatype gtsmodel = FollowRequestModel FollowRequest | FollowModel Follow

record FromClientAPI =
  APObjectType :: string
  APActivityType :: string
  GTSModel :: gtsmodel
  OriginAccount :: Account
  TargetAccount :: "Account option"

text \<open>
  Modelled from the spec: the ActivityStreams names of package \<^verbatim>\<open>ap\<close> (object-type
  Follow, activity-types Create and Undo).
\<close>

definition ActivityFollow :: string where
  "ActivityFollow = ''Follow''"

definition ActivityCreate :: string where
  "ActivityCreate = ''Create''"

definition ActivityUndo :: string where
  "ActivityUndo = ''Undo''"

section \<open>Errors\<close>

text \<open>
  The sentinel errors of package \<^verbatim>\<open>db\<close>, and the coded errors of package
  \<^verbatim>\<open>gtserror\<close> that the two operations return. A nil-pointer dereference is a
  Go panic: it is an outcome of its own, not a coded error.
\<close>

datatype db_error = ErrNoEntries | ErrMultipleEntries | ErrAlreadyExists | ErrUnknown

datatype gtserror = ErrorInternalError | ErrorNotFound | ErrorNotAcceptable | ErrorForbidden

datatype failure = WithCode gtserror | NilPointerDereference

section \<open>The repository\<close>

text \<open>
  Modelled from the spec: the repository adapter \<^verbatim>\<open>p.state.DB\<close> is an interface whose
  implementation is not among the sources. It is modelled as four tables (lists of rows,
  in insertion order) and a fault plan: an operation named in \<open>faults\<close> fails with the
  error given there before it touches a table, which is how an infrastructure failure or a
  constraint violation raised by the storage engine reaches the caller.
\<close>

datatype db_op =
  OpIsBlocked | OpGetAccountByID | OpIsFollowing | OpIsFollowRequested | OpPut
  | OpAcceptFollowRequest | OpGetWhereFollowRequest | OpGetWhereFollow
  | OpDeleteFollowRequest | OpDeleteFollow | OpGetRelationship

record db =
  accounts :: "Account list"
  follow_requests :: "FollowRequest list"
  follows :: "Follow list"
  blocks :: "Block list"
  faults :: "(db_op \<times> db_error) list"

definition failing :: "db \<Rightarrow> db_op \<Rightarrow> db_error option" where
  "failing d op = map_of (faults d) op"


definition block_exists :: "db \<Rightarrow> string \<Rightarrow> string \<Rightarrow> bool" where
  "block_exists d a b =
     list_ex (\<lambda>x. bl_AccountID x = a \<and> bl_TargetAccountID x = b) (blocks d)"

definition request_matches :: "string \<Rightarrow> string \<Rightarrow> FollowRequest \<Rightarrow> bool" where
  "request_matches a b r = (fr_AccountID r = a \<and> fr_TargetAccountID r = b)"

definition follow_matches :: "string \<Rightarrow> string \<Rightarrow> Follow \<Rightarrow> bool" where
  "follow_matches a b f = (fo_AccountID f = a \<and> fo_TargetAccountID f = b)"

text \<open>The number of FollowRequest rows, and of Follow rows, for an ordered pair.\<close>

definition request_count :: "db \<Rightarrow> string \<Rightarrow> string \<Rightarrow> nat" where
  "request_count d a b = length (filter (request_matches a b) (follow_requests d))"

definition follow_count :: "db \<Rightarrow> string \<Rightarrow> string \<Rightarrow> nat" where
  "follow_count d a b = length (filter (follow_matches a b) (follows d))"

text \<open>
  Modelled from the spec: \<^verbatim>\<open>IsBlocked(a, b, bothDirections)\<close>, a pure read that
  answers whether a block row exists from a to b, or (when both directions are asked for)
  from b to a.
\<close>

definition IsBlocked :: "db \<Rightarrow> string \<Rightarrow> string \<Rightarrow> bool \<Rightarrow> db_error + bool" where
  "IsBlocked d account1 account2 eitherDirection =
     (case failing d OpIsBlocked of
        Some err \<Rightarrow> Inl err
      | None \<Rightarrow> Inr (block_exists d account1 account2
                      \<or> (eitherDirection \<and> block_exists d account2 account1)))"

text \<open>
  Modelled from the spec: \<^verbatim>\<open>GetAccountByID(id)\<close> returns the stored account with that
  id, or the sentinel \<^verbatim>\<open>db.ErrNoEntries\<close> when there is none.
\<close>

definition GetAccountByID :: "db \<Rightarrow> string \<Rightarrow> db_error + Account" where
  "GetAccountByID d i =
     (case failing d OpGetAccountByID of
        Some err \<Rightarrow> Inl err
      | None \<Rightarrow> (case find (\<lambda>a. acct_ID a = i) (accounts d) of
                    None \<Rightarrow> Inl ErrNoEntries
                  | Some a \<Rightarrow> Inr a))"

text \<open>
  Modelled from the spec: \<^verbatim>\<open>IsFollowing(a, b)\<close> and \<^verbatim>\<open>IsFollowRequested(a, b)\<close>,
  existence queries on the Follow and FollowRequest tables.
\<close>

definition IsFollowing :: "db \<Rightarrow> Account \<Rightarrow> Account \<Rightarrow> db_error + bool" where
  "IsFollowing d sourceAccount targetAccount =
     (case failing d OpIsFollowing of
        Some err \<Rightarrow> Inl err
      | None \<Rightarrow> Inr (list_ex (follow_matches (acct_ID sourceAccount) (acct_ID targetAccount))
                        (follows d)))"

definition IsFollowRequested :: "db \<Rightarrow> Account \<Rightarrow> Account \<Rightarrow> db_error + bool" where
  "IsFollowRequested d sourceAccount targetAccount =
     (case failing d OpIsFollowRequested of
        Some err \<Rightarrow> Inl err
      | None \<Rightarrow> Inr (list_ex (request_matches (acct_ID sourceAccount) (acct_ID targetAccount))
                        (follow_requests d)))"

text \<open>
  Modelled from the spec: \<^verbatim>\<open>Put(record)\<close> for a FollowRequest. The repository
  enforces uniqueness on (origin, target) across both FollowRequest and Follow, and
  reports a violation as \<^verbatim>\<open>db.ErrAlreadyExists\<close>; otherwise the row is appended.
\<close>

definition Put :: "db \<Rightarrow> FollowRequest \<Rightarrow> db_error + db" where
  "Put d fr =
     (case failing d OpPut of
        Some err \<Rightarrow> Inl err
      | None \<Rightarrow>
          (if list_ex (request_matches (fr_AccountID fr) (fr_TargetAccountID fr)) (follow_requests d)
              \<or> list_ex (follow_matches (fr_AccountID fr) (fr_TargetAccountID fr)) (follows d)
           then Inl ErrAlreadyExists
           else Inr (d\<lparr>follow_requests := follow_requests d @ [fr]\<rparr>)))"

text \<open>
  Modelled from the spec: \<^verbatim>\<open>AcceptFollowRequest(requesterID, targetID)\<close> atomically
  deletes the pending request (by its id) and creates the corresponding Follow with the same
  identity, URI and flags; it returns the new Follow. With no pending request it reports
  \<^verbatim>\<open>db.ErrNoEntries\<close>.
\<close>

definition accepted_follow :: "FollowRequest \<Rightarrow> Follow" where
  "accepted_follow fr =
     \<lparr>fo_ID = fr_ID fr,
      fo_AccountID = fr_AccountID fr,
      fo_TargetAccountID = fr_TargetAccountID fr,
      fo_ShowReblogs = fr_ShowReblogs fr,
      fo_URI = fr_URI fr,
      fo_Notify = fr_Notify fr\<rparr>"

definition AcceptFollowRequest :: "db \<Rightarrow> string \<Rightarrow> string \<Rightarrow> db_error + (Follow \<times> db)" where
  "AcceptFollowRequest d originAccountID targetAccountID =
     (case failing d OpAcceptFollowRequest of
        Some err \<Rightarrow> Inl err
      | None \<Rightarrow>
          (case find (request_matches originAccountID targetAccountID) (follow_requests d) of
             None \<Rightarrow> Inl ErrNoEntries
           | Some fr \<Rightarrow>
               Inr (accepted_follow fr,
                    d\<lparr>follow_requests := filter (\<lambda>r. fr_ID r \<noteq> fr_ID fr) (follow_requests d),
                      follows := follows d @ [accepted_follow fr]\<rparr>)))"

text \<open>
  Modelled from the spec: \<^verbatim>\<open>GetWhere(predicates, &outRecord)\<close> with the predicates
  \<^verbatim>\<open>account_id\<close> and \<^verbatim>\<open>target_account_id\<close>, once for each record type: the first
  matching row, or \<^verbatim>\<open>db.ErrNoEntries\<close>.
\<close>

definition GetWhereFollowRequest :: "db \<Rightarrow> string \<Rightarrow> string \<Rightarrow> db_error + FollowRequest" where
  "GetWhereFollowRequest d account_id target_account_id =
     (case failing d OpGetWhereFollowRequest of
        Some err \<Rightarrow> Inl err
      | None \<Rightarrow> (case find (request_matches account_id target_account_id) (follow_requests d) of
                    None \<Rightarrow> Inl ErrNoEntries
                  | Some fr \<Rightarrow> Inr fr))"

definition GetWhereFollow :: "db \<Rightarrow> string \<Rightarrow> string \<Rightarrow> db_error + Follow" where
  "GetWhereFollow d account_id target_account_id =
     (case failing d OpGetWhereFollow of
        Some err \<Rightarrow> Inl err
      | None \<Rightarrow> (case find (follow_matches account_id target_account_id) (follows d) of
                    None \<Rightarrow> Inl ErrNoEntries
                  | Some f \<Rightarrow> Inr f))"

text \<open>
  Modelled from the spec: \<^verbatim>\<open>DeleteByID(id, recordType)\<close>, once for each record type:
  the rows with that id are removed.
\<close>

definition DeleteFollowRequestByID :: "db \<Rightarrow> string \<Rightarrow> db_error + db" where
  "DeleteFollowRequestByID d i =
     (case failing d OpDeleteFollowRequest of
        Some err \<Rightarrow> Inl err
      | None \<Rightarrow> Inr (d\<lparr>follow_requests := filter (\<lambda>r. fr_ID r \<noteq> i) (follow_requests d)\<rparr>))"

definition DeleteFollowByID :: "db \<Rightarrow> string \<Rightarrow> db_error + db" where
  "DeleteFollowByID d i =
     (case failing d OpDeleteFollow of
        Some err \<Rightarrow> Inl err
      | None \<Rightarrow> Inr (d\<lparr>follows := filter (\<lambda>f. fo_ID f \<noteq> i) (follows d)\<rparr>))"

section \<open>The processor\<close>

text \<open>
  The part of \<^verbatim>\<open>p.state\<close> that follow.go uses: the repository and the client-API worker
  queue. \<^verbatim>\<open>EnqueueClientAPI\<close> appends to the queue.
\<close>

record Processor =
  DB :: db
  Workers :: "FromClientAPI list"

definition EnqueueClientAPI :: "Processor \<Rightarrow> FromClientAPI \<Rightarrow> Processor" where
  "EnqueueClientAPI p msg = p\<lparr>Workers := Workers p @ [msg]\<rparr>"

text \<open>
  Modelled from the spec: the relationship resolver \<^verbatim>\<open>RelationshipGet\<close> (defined in
  another file of the package) derives the snapshot directly from repository predicate
  queries, without side effects; a repository failure is an Internal error.
\<close>

definition RelationshipGet :: "Processor \<Rightarrow> Account \<Rightarrow> string \<Rightarrow> failure + Relationship" where
  "RelationshipGet p requestingAccount targetAccountID =
     (case failing (DB p) OpGetRelationship of
        Some err \<Rightarrow> Inl (WithCode ErrorInternalError)
      | None \<Rightarrow>
          Inr \<lparr>rel_ID = targetAccountID,
               rel_Following =
                 list_ex (follow_matches (acct_ID requestingAccount) targetAccountID) (follows (DB p)),
               rel_Requested =
                 list_ex (request_matches (acct_ID requestingAccount) targetAccountID)
                   (follow_requests (DB p)),
               rel_Blocking = block_exists (DB p) (acct_ID requestingAccount) targetAccountID,
               rel_BlockedBy = block_exists (DB p) targetAccountID (acct_ID requestingAccount)\<rparr>)"

text \<open>
  Modelled from the spec: \<^verbatim>\<open>uris.GenerateURIForFollow(username, id)\<close> builds the stable
  federation identifier of a follow from the requester's user name and the new id (the
  host part comes from configuration that is not among the sources).
\<close>

definition GenerateURIForFollow :: "string \<Rightarrow> string \<Rightarrow> string" where
  "GenerateURIForFollow username thisFollowID =
     ''https://localhost/users/'' @ username @ ''/follow/'' @ thisFollowID"

section \<open>FollowCreate\<close>

text \<open>
  Lines 80 to 95 of follow.go: the new request, with show-reblogs defaulting to true and
  notify to false, each overridden by the form when the form gives it.
\<close>

definition new_follow_request :: "Account \<Rightarrow> AccountFollowRequest \<Rightarrow> string \<Rightarrow> FollowRequest" where
  "new_follow_request requestingAccount form newFollowID =
     (let showReblogs = True;
          notify = False;
          fr = \<lparr>fr_ID = newFollowID,
                fr_AccountID = acct_ID requestingAccount,
                fr_TargetAccountID = form_ID form,
                fr_ShowReblogs = Some showReblogs,
                fr_URI = GenerateURIForFollow (acct_Username requestingAccount) newFollowID,
                fr_Notify = Some notify\<rparr>;
          fr = (if form_Reblogs form \<noteq> None then fr\<lparr>fr_ShowReblogs := form_Reblogs form\<rparr> else fr);
          fr = (if form_Notify form \<noteq> None then fr\<lparr>fr_Notify := form_Notify form\<rparr> else fr)
      in fr)"

text \<open>
  \<^verbatim>\<open>FollowCreate\<close>, lines 36 to 122. The processor state is passed in and returned.
  The argument \<open>newULID\<close> is what \<^verbatim>\<open>id.NewRandomULID()\<close> yields in this call
  (\<open>None\<close>: the generator returned an error); the generator reads the system's
  entropy, which is outside the processor state. The requesting account and the form are
  non-nil, as the API layer passes them.
\<close>

definition FollowCreate ::
  "Processor \<Rightarrow> string option \<Rightarrow> Account \<Rightarrow> AccountFollowRequest \<Rightarrow> (failure + Relationship) \<times> Processor"
where
  "FollowCreate p newULID requestingAccount form =
     (case IsBlocked (DB p) (acct_ID requestingAccount) (form_ID form) True of
        Inl err \<Rightarrow> (Inl (WithCode ErrorInternalError), p)
      | Inr blocked \<Rightarrow>
     if blocked then (Inl (WithCode ErrorNotFound), p)
     else
     (case GetAccountByID (DB p) (form_ID form) of
        Inl err \<Rightarrow>
          if err = ErrNoEntries then (Inl (WithCode ErrorNotFound), p)
          else (Inl (WithCode ErrorInternalError), p)
      | Inr targetAcct \<Rightarrow>
     (case IsFollowing (DB p) requestingAccount targetAcct of
        Inl err \<Rightarrow> (Inl (WithCode ErrorInternalError), p)
      | Inr follows' \<Rightarrow>
     if follows' then (RelationshipGet p requestingAccount (form_ID form), p)
     else
     (case IsFollowRequested (DB p) requestingAccount targetAcct of
        Inl err \<Rightarrow> (Inl (WithCode ErrorInternalError), p)
      | Inr followRequested \<Rightarrow>
     if followRequested then (RelationshipGet p requestingAccount (form_ID form), p)
     else if acct_ID requestingAccount = acct_ID targetAcct
     then (Inl (WithCode ErrorNotAcceptable), p)
     else
     (case newULID of
        None \<Rightarrow> (Inl (WithCode ErrorInternalError), p)
      | Some newFollowID \<Rightarrow>
     (let fr = new_follow_request requestingAccount form newFollowID in
      case Put (DB p) fr of
        Inl err \<Rightarrow> (Inl (WithCode ErrorInternalError), p)
      | Inr db1 \<Rightarrow>
     (case acct_Locked targetAcct of
        None \<Rightarrow> (Inl NilPointerDereference, p\<lparr>DB := db1\<rparr>)
      | Some locked \<Rightarrow>
     if \<not> locked \<and> acct_Domain targetAcct = []
     then
       (case AcceptFollowRequest db1 (acct_ID requestingAccount) (form_ID form) of
          Inl err \<Rightarrow> (Inl (WithCode ErrorInternalError), p\<lparr>DB := db1\<rparr>)
        | Inr accepted \<Rightarrow>
            (let p2 = p\<lparr>DB := snd accepted\<rparr>
             in (RelationshipGet p2 requestingAccount (form_ID form), p2)))
     else
       (let p2 = EnqueueClientAPI (p\<lparr>DB := db1\<rparr>)
                   \<lparr>APObjectType = ActivityFollow,
                    APActivityType = ActivityCreate,
                    GTSModel = FollowRequestModel fr,
                    OriginAccount = requestingAccount,
                    TargetAccount = Some targetAcct\<rparr>
        in (RelationshipGet p2 requestingAccount (form_ID form), p2)))))))))"

section \<open>FollowRemove\<close>

text \<open>
  \<^verbatim>\<open>FollowRemove\<close>, lines 125 to 205. After the target lookup only the sentinel
  \<^verbatim>\<open>db.ErrNoEntries\<close> returns; with any other lookup error the source goes on with a
  nil target account. Each \<^verbatim>\<open>GetWhere\<close> is followed by a deletion only when it
  returned no error at all. The two Undo messages are enqueued after both deletions.
\<close>

definition undo_message :: "Account \<Rightarrow> string \<Rightarrow> Account option \<Rightarrow> string \<Rightarrow> FromClientAPI" where
  "undo_message requestingAccount targetAccountID targetAcct uri =
     \<lparr>APObjectType = ActivityFollow,
      APActivityType = ActivityUndo,
      GTSModel = FollowModel \<lparr>fo_ID = [],
                              fo_AccountID = acct_ID requestingAccount,
                              fo_TargetAccountID = targetAccountID,
                              fo_ShowReblogs = None,
                              fo_URI = uri,
                              fo_Notify = None\<rparr>,
      OriginAccount = requestingAccount,
      TargetAccount = targetAcct\<rparr>"

definition FollowRemove ::
  "Processor \<Rightarrow> Account \<Rightarrow> string \<Rightarrow> (failure + Relationship) \<times> Processor"
where
  "FollowRemove p requestingAccount targetAccountID =
     (case IsBlocked (DB p) (acct_ID requestingAccount) targetAccountID True of
        Inl err \<Rightarrow> (Inl (WithCode ErrorInternalError), p)
      | Inr blocked \<Rightarrow>
     if blocked then (Inl (WithCode ErrorNotFound), p)
     else
     (let lookup = GetAccountByID (DB p) targetAccountID in
      if lookup = Inl ErrNoEntries then (Inl (WithCode ErrorNotFound), p)
      else
     (let targetAcct = (case lookup of Inl err \<Rightarrow> None | Inr a \<Rightarrow> Some a);
          removedRequest =
            (case GetWhereFollowRequest (DB p) (acct_ID requestingAccount) targetAccountID of
               Inl err \<Rightarrow> Inr (DB p, False, [])
             | Inr fr \<Rightarrow>
                 (case DeleteFollowRequestByID (DB p) (fr_ID fr) of
                    Inl err \<Rightarrow> Inl (WithCode ErrorInternalError)
                  | Inr db1 \<Rightarrow> Inr (db1, True, fr_URI fr)))
      in
      case removedRequest of
        Inl e \<Rightarrow> (Inl e, p)
      | Inr (db1, frChanged, frURI) \<Rightarrow>
     (let removedFollow =
            (case GetWhereFollow db1 (acct_ID requestingAccount) targetAccountID of
               Inl err \<Rightarrow> Inr (db1, False, [])
             | Inr f \<Rightarrow>
                 (case DeleteFollowByID db1 (fo_ID f) of
                    Inl err \<Rightarrow> Inl (WithCode ErrorInternalError)
                  | Inr db2 \<Rightarrow> Inr (db2, True, fo_URI f)))
      in
      case removedFollow of
        Inl e \<Rightarrow> (Inl e, p\<lparr>DB := db1\<rparr>)
      | Inr (db2, fChanged, fURI) \<Rightarrow>
     (let p1 = p\<lparr>DB := db2\<rparr>;
          p2 = (if frChanged
                then EnqueueClientAPI p1 (undo_message requestingAccount targetAccountID targetAcct frURI)
                else p1);
          p3 = (if fChanged
                then EnqueueClientAPI p2 (undo_message requestingAccount targetAccountID targetAcct fURI)
                else p2)
      in (RelationshipGet p3 requestingAccount targetAccountID, p3))))))"

section \<open>Example accounts and processor states\<close>

text \<open>
  Concrete data on which the theorems below are exercised: two local unlocked accounts,
  a remote locked one, and a local one whose \<^verbatim>\<open>Locked\<close> pointer is nil.
\<close>

definition alice :: Account where
  "alice = \<lparr>acct_ID = ''01ALICE'', acct_Username = ''alice'', acct_Domain = [],
            acct_Locked = Some False\<rparr>"

definition bob :: Account where
  "bob = \<lparr>acct_ID = ''01BOB'', acct_Username = ''bob'', acct_Domain = [],
          acct_Locked = Some False\<rparr>"

definition carol :: Account where
  "carol = \<lparr>acct_ID = ''01CAROL'', acct_Username = ''carol'', acct_Domain = ''example.org'',
            acct_Locked = Some True\<rparr>"

definition dave :: Account where
  "dave = \<lparr>acct_ID = ''01DAVE'', acct_Username = ''dave'', acct_Domain = [],
           acct_Locked = None\<rparr>"

definition follow_form :: "Account \<Rightarrow> AccountFollowRequest" where
  "follow_form target = \<lparr>form_ID = acct_ID target, form_Reblogs = None, form_Notify = None\<rparr>"

definition db_fresh :: db where
  "db_fresh = \<lparr>accounts = [alice, bob, carol, dave], follow_requests = [], follows = [],
               blocks = [], faults = []\<rparr>"

definition p_fresh :: Processor where
  "p_fresh = \<lparr>DB = db_fresh, Workers = []\<rparr>"

text \<open>A repository that holds a Follow row from alice to herself.\<close>

definition p_self_follow :: Processor where
  "p_self_follow =
     \<lparr>DB = db_fresh\<lparr>follows :=
             [\<lparr>fo_ID = ''01F1'', fo_AccountID = ''01ALICE'', fo_TargetAccountID = ''01ALICE'',
               fo_ShowReblogs = Some True,
               fo_URI = ''https://localhost/users/alice/follow/01F1'',
               fo_Notify = Some False\<rparr>]\<rparr>,
      Workers = []\<rparr>"

text \<open>Alice's own account row is not (or no longer) stored.\<close>

definition p_unregistered :: Processor where
  "p_unregistered = \<lparr>DB = db_fresh\<lparr>accounts := [bob, carol, dave]\<rparr>, Workers = []\<rparr>"

text \<open>Alice follows an account (id 01GONE) that is no longer stored.\<close>

definition p_dangling :: Processor where
  "p_dangling =
     \<lparr>DB = db_fresh\<lparr>follows :=
             [\<lparr>fo_ID = ''01F2'', fo_AccountID = ''01ALICE'', fo_TargetAccountID = ''01GONE'',
               fo_ShowReblogs = Some True,
               fo_URI = ''https://localhost/users/alice/follow/01F2'',
               fo_Notify = Some False\<rparr>]\<rparr>,
      Workers = []\<rparr>"

text \<open>The storage engine rejects every insert with a duplicate-key violation.\<close>

definition p_put_conflict :: Processor where
  "p_put_conflict = \<lparr>DB = db_fresh\<lparr>faults := [(OpPut, ErrAlreadyExists)]\<rparr>, Workers = []\<rparr>"

text \<open>Carol has blocked alice.\<close>

definition p_blocked :: Processor where
  "p_blocked =
     \<lparr>DB = db_fresh\<lparr>blocks := [\<lparr>bl_AccountID = ''01CAROL'', bl_TargetAccountID = ''01ALICE''\<rparr>]\<rparr>,
      Workers = []\<rparr>"

text \<open>Alice has a pending request to bob, who is local and unlocked.\<close>

definition p_pending :: Processor where
  "p_pending =
     \<lparr>DB = db_fresh\<lparr>follow_requests :=
             [\<lparr>fr_ID = ''01R0'', fr_AccountID = ''01ALICE'', fr_TargetAccountID = ''01BOB'',
               fr_ShowReblogs = Some True,
               fr_URI = ''https://localhost/users/alice/follow/01R0'',
               fr_Notify = Some False\<rparr>]\<rparr>,
      Workers = []\<rparr>"

text \<open>Alice already follows carol, who is remote and locked.\<close>

definition p_following :: Processor where
  "p_following =
     \<lparr>DB = db_fresh\<lparr>follows :=
             [\<lparr>fo_ID = ''01F0'', fo_AccountID = ''01ALICE'', fo_TargetAccountID = ''01CAROL'',
               fo_ShowReblogs = Some True,
               fo_URI = ''https://localhost/users/alice/follow/01F0'',
               fo_Notify = Some False\<rparr>]\<rparr>,
      Workers = []\<rparr>"

text \<open>Both a pending request and a Follow from alice to carol are stored.\<close>

definition p_both :: Processor where
  "p_both =
     \<lparr>DB = db_fresh\<lparr>
        follow_requests :=
          [\<lparr>fr_ID = ''01R1'', fr_AccountID = ''01ALICE'', fr_TargetAccountID = ''01CAROL'',
            fr_ShowReblogs = Some True,
            fr_URI = ''https://localhost/users/alice/follow/01R1'',
            fr_Notify = Some False\<rparr>],
        follows :=
          [\<lparr>fo_ID = ''01F3'', fo_AccountID = ''01ALICE'', fo_TargetAccountID = ''01CAROL'',
            fo_ShowReblogs = Some True,
            fo_URI = ''https://localhost/users/alice/follow/01F3'',
            fo_Notify = Some False\<rparr>]\<rparr>,
      Workers = []\<rparr>"

text \<open>
  Alice follows carol, and the repository answers the lookup of a Follow row with an error
  that is not the no-entries sentinel.
\<close>

definition p_lookup_fault :: Processor where
  "p_lookup_fault =
     \<lparr>DB = db_fresh\<lparr>
        follows :=
          [\<lparr>fo_ID = ''01F0'', fo_AccountID = ''01ALICE'', fo_TargetAccountID = ''01CAROL'',
            fo_ShowReblogs = Some True,
            fo_URI = ''https://localhost/users/alice/follow/01F0'',
            fo_Notify = Some False\<rparr>],
        faults := [(OpGetWhereFollow, ErrUnknown)]\<rparr>,
      Workers = []\<rparr>"

text \<open>
  The state after alice's request to dave has been persisted: dave's \<^verbatim>\<open>Locked\<close> is nil.
\<close>

definition p_dave_requested :: Processor where
  "p_dave_requested =
     \<lparr>DB = db_fresh\<lparr>follow_requests := [new_follow_request alice (follow_form dave) ''01N'']\<rparr>,
      Workers = []\<rparr>"

text \<open>
  Both a pending request and a Follow from alice to carol are stored, and the repository
  fails every deletion of a Follow row.
\<close>

definition p_delete_fault :: Processor where
  "p_delete_fault =
     \<lparr>DB = db_fresh\<lparr>
        follow_requests :=
          [\<lparr>fr_ID = ''01R1'', fr_AccountID = ''01ALICE'', fr_TargetAccountID = ''01CAROL'',
            fr_ShowReblogs = Some True,
            fr_URI = ''https://localhost/users/alice/follow/01R1'',
            fr_Notify = Some False\<rparr>],
        follows :=
          [\<lparr>fo_ID = ''01F3'', fo_AccountID = ''01ALICE'', fo_TargetAccountID = ''01CAROL'',
            fo_ShowReblogs = Some True,
            fo_URI = ''https://localhost/users/alice/follow/01F3'',
            fo_Notify = Some False\<rparr>],
        faults := [(OpDeleteFollow, ErrUnknown)]\<rparr>,
      Workers = []\<rparr>"

section \<open>Facts about the repository\<close>

lemmas example_defs = alice_def bob_def carol_def dave_def follow_form_def db_fresh_def
  p_fresh_def p_self_follow_def p_dangling_def p_put_conflict_def p_blocked_def
  p_pending_def p_following_def p_both_def p_lookup_fault_def p_unregistered_def
  p_dave_requested_def p_delete_fault_def

lemmas op_defs = IsBlocked_def GetAccountByID_def IsFollowing_def IsFollowRequested_def Put_def
  AcceptFollowRequest_def accepted_follow_def GetWhereFollowRequest_def GetWhereFollow_def
  DeleteFollowRequestByID_def DeleteFollowByID_def RelationshipGet_def failing_def
  block_exists_def request_matches_def follow_matches_def EnqueueClientAPI_def
  new_follow_request_def GenerateURIForFollow_def undo_message_def Let_def

lemma GetAccountByID_id:
  "GetAccountByID d i = Inr a \<Longrightarrow> acct_ID a = i"
  by (auto simp: GetAccountByID_def find_Some_iff split: option.splits)



















lemma list_ex_find: "list_ex P xs = (find P xs \<noteq> None)"
  by (auto simp add: list_ex_iff find_None_iff)

section \<open>The self-follow check\<close>

text \<open>
  Claim C1, as stated, fails: the check for a self-follow is the fifth step of
  \<^verbatim>\<open>FollowCreate\<close>, after the block check, the target lookup and the two
  existence checks, so the prior state decides whether it is reached. In a repository that
  already holds a Follow row from alice to alice, \<^verbatim>\<open>FollowCreate(alice, alice)\<close>
  takes the already-follows return of lines 54 to 59 and yields the relationship snapshot;
  in a repository that does not hold alice's account row, the target lookup of lines 45 to
  51 yields NotFound. Neither call fails with NotAcceptable.
\<close>

theorem FollowCreate_self_other_outcomes:
  "FollowCreate p_self_follow (Some ''01N'') alice (follow_form alice) =
     (Inr \<lparr>rel_ID = ''01ALICE'', rel_Following = True, rel_Requested = False,
           rel_Blocking = False, rel_BlockedBy = False\<rparr>, p_self_follow)
   \<and> FollowCreate p_unregistered (Some ''01N'') alice (follow_form alice) =
     (Inl (WithCode ErrorNotFound), p_unregistered)"
  by (simp add: FollowCreate_def example_defs op_defs)

text \<open>
  Claim C1, amended: when the four steps before the self-follow check pass (the block check
  answers no block, the requester's own account is found, and neither a Follow nor a
  FollowRequest from the requester to itself is reported), \<^verbatim>\<open>FollowCreate(A, A)\<close>
  fails with NotAcceptable and leaves the repository and the dispatch queue as they were:
  no record is created and no message is enqueued.
\<close>

theorem FollowCreate_self_not_acceptable:
  assumes "IsBlocked (DB p) (acct_ID a) (form_ID form) True = Inr False"
    and "GetAccountByID (DB p) (form_ID form) = Inr t"
    and "IsFollowing (DB p) a t = Inr False"
    and "IsFollowRequested (DB p) a t = Inr False"
    and "form_ID form = acct_ID a"
  shows "FollowCreate p u a form = (Inl (WithCode ErrorNotAcceptable), p)"
proof -
  have "acct_ID t = acct_ID a"
    using GetAccountByID_id [OF assms(2)] assms(5) by simp
  then show ?thesis
    using assms by (simp add: FollowCreate_def)
qed

theorem FollowCreate_self_not_acceptable_witness:
  "IsBlocked (DB p_fresh) (acct_ID alice) (form_ID (follow_form alice)) True = Inr False
   \<and> GetAccountByID (DB p_fresh) (form_ID (follow_form alice)) = Inr alice
   \<and> IsFollowing (DB p_fresh) alice alice = Inr False
   \<and> IsFollowRequested (DB p_fresh) alice alice = Inr False
   \<and> form_ID (follow_form alice) = acct_ID alice
   \<and> FollowCreate p_fresh (Some ''01N'') alice (follow_form alice)
       = (Inl (WithCode ErrorNotAcceptable), p_fresh)"
proof -
  have h1: "IsBlocked (DB p_fresh) (acct_ID alice) (form_ID (follow_form alice)) True = Inr False"
    by (simp add: example_defs op_defs)
  have h2: "GetAccountByID (DB p_fresh) (form_ID (follow_form alice)) = Inr alice"
    by (simp add: example_defs op_defs)
  have h3: "IsFollowing (DB p_fresh) alice alice = Inr False"
    by (simp add: example_defs op_defs)
  have h4: "IsFollowRequested (DB p_fresh) alice alice = Inr False"
    by (simp add: example_defs op_defs)
  have h5: "form_ID (follow_form alice) = acct_ID alice"
    by (simp add: example_defs)
  show ?thesis
    using FollowCreate_self_not_acceptable [OF h1 h2 h3 h4 h5] h1 h2 h3 h4 h5 by simp
qed

section \<open>Removal when the target account is gone\<close>

text \<open>
  Claim C2, as stated, fails: when the target lookup of \<^verbatim>\<open>FollowRemove\<close> reports
  \<^verbatim>\<open>db.ErrNoEntries\<close>, lines 137 to 140 return NotFound. Alice's Follow of the
  vanished account 01GONE stays in the repository and no Undo is enqueued.
\<close>

theorem FollowRemove_target_missing_aborts:
  "GetAccountByID (DB p_dangling) ''01GONE'' = Inl ErrNoEntries
   \<and> follow_count (DB p_dangling) ''01ALICE'' ''01GONE'' = 1
   \<and> FollowRemove p_dangling alice ''01GONE'' = (Inl (WithCode ErrorNotFound), p_dangling)"
  by (simp add: FollowRemove_def follow_count_def example_defs op_defs)

text \<open>
  Claim C2, amended: in \<^verbatim>\<open>FollowRemove\<close>, when no block is reported and the
  target-account lookup fails with the no-entries error, the operation aborts with NotFound
  before any deletion: the repository and the dispatch queue are unchanged.
\<close>

theorem FollowRemove_target_missing_not_found:
  assumes "IsBlocked (DB p) (acct_ID a) t True = Inr False"
    and "GetAccountByID (DB p) t = Inl ErrNoEntries"
  shows "FollowRemove p a t = (Inl (WithCode ErrorNotFound), p)"
  using assms by (simp add: FollowRemove_def)

theorem FollowRemove_target_missing_not_found_witness:
  "IsBlocked (DB p_dangling) (acct_ID alice) ''01GONE'' True = Inr False
   \<and> GetAccountByID (DB p_dangling) ''01GONE'' = Inl ErrNoEntries
   \<and> FollowRemove p_dangling alice ''01GONE'' = (Inl (WithCode ErrorNotFound), p_dangling)"
proof -
  have h1: "IsBlocked (DB p_dangling) (acct_ID alice) ''01GONE'' True = Inr False"
    by (simp add: example_defs op_defs)
  have h2: "GetAccountByID (DB p_dangling) ''01GONE'' = Inl ErrNoEntries"
    by (simp add: example_defs op_defs)
  show ?thesis
    using FollowRemove_target_missing_not_found [OF h1 h2] h1 h2 by simp
qed

section \<open>A failed insert\<close>

text \<open>
  Claim C3, as stated, fails: lines 98 to 100 turn every error of \<^verbatim>\<open>Put\<close> into an
  Internal error; no branch looks at \<^verbatim>\<open>db.ErrAlreadyExists\<close>. Here the storage
  engine rejects the insert of alice's request to carol with a duplicate-key violation (as it
  would when a concurrent call for the same pair had inserted first), and the caller gets
  Internal, not a snapshot.
\<close>

theorem FollowCreate_duplicate_key_internal:
  "Put (DB p_put_conflict) (new_follow_request alice (follow_form carol) ''01N'')
     = Inl ErrAlreadyExists
   \<and> FollowCreate p_put_conflict (Some ''01N'') alice (follow_form carol)
     = (Inl (WithCode ErrorInternalError), p_put_conflict)"
  by (simp add: FollowCreate_def example_defs op_defs)

text \<open>
  Claim C3, amended: in \<^verbatim>\<open>FollowCreate\<close>, if persisting the new FollowRequest fails,
  for whatever reason (a duplicate-key violation included), the operation returns an Internal
  error; the repository and the dispatch queue are unchanged and no snapshot is returned.
\<close>

theorem FollowCreate_put_failure_internal:
  assumes "IsBlocked (DB p) (acct_ID a) (form_ID form) True = Inr False"
    and "GetAccountByID (DB p) (form_ID form) = Inr t"
    and "IsFollowing (DB p) a t = Inr False"
    and "IsFollowRequested (DB p) a t = Inr False"
    and "acct_ID a \<noteq> form_ID form"
    and "Put (DB p) (new_follow_request a form u) = Inl e"
  shows "FollowCreate p (Some u) a form = (Inl (WithCode ErrorInternalError), p)"
proof -
  have "acct_ID t = form_ID form"
    using GetAccountByID_id [OF assms(2)] .
  then show ?thesis
    using assms by (simp add: FollowCreate_def)
qed

theorem FollowCreate_put_failure_internal_witness:
  "IsBlocked (DB p_put_conflict) (acct_ID alice) (form_ID (follow_form carol)) True = Inr False
   \<and> GetAccountByID (DB p_put_conflict) (form_ID (follow_form carol)) = Inr carol
   \<and> IsFollowing (DB p_put_conflict) alice carol = Inr False
   \<and> IsFollowRequested (DB p_put_conflict) alice carol = Inr False
   \<and> acct_ID alice \<noteq> form_ID (follow_form carol)
   \<and> Put (DB p_put_conflict) (new_follow_request alice (follow_form carol) ''01N'')
       = Inl ErrAlreadyExists
   \<and> FollowCreate p_put_conflict (Some ''01N'') alice (follow_form carol)
       = (Inl (WithCode ErrorInternalError), p_put_conflict)"
proof -
  have h1: "IsBlocked (DB p_put_conflict) (acct_ID alice) (form_ID (follow_form carol)) True
      = Inr False"
    by (simp add: example_defs op_defs)
  have h2: "GetAccountByID (DB p_put_conflict) (form_ID (follow_form carol)) = Inr carol"
    by (simp add: example_defs op_defs)
  have h3: "IsFollowing (DB p_put_conflict) alice carol = Inr False"
    by (simp add: example_defs op_defs)
  have h4: "IsFollowRequested (DB p_put_conflict) alice carol = Inr False"
    by (simp add: example_defs op_defs)
  have h5: "acct_ID alice \<noteq> form_ID (follow_form carol)"
    by (simp add: example_defs)
  have h6: "Put (DB p_put_conflict) (new_follow_request alice (follow_form carol) ''01N'')
      = Inl ErrAlreadyExists"
    by (simp add: example_defs op_defs)
  show ?thesis
    using FollowCreate_put_failure_internal [OF h1 h2 h3 h4 h5 h6] h1 h2 h3 h4 h5 h6 by simp
qed

section \<open>The blocking guard\<close>



section \<open>A target account without a Locked value\<close>

text \<open>
  Claim C10: line 103 dereferences \<^verbatim>\<open>targetAcct.Locked\<close> after the FollowRequest has
  been persisted. Whenever \<^verbatim>\<open>FollowCreate\<close> gets that far with a target whose
  \<^verbatim>\<open>Locked\<close> is nil, it panics: the request stays in the repository, nothing is
  enqueued and no snapshot is returned. The example shows that such an input exists.
\<close>

theorem FollowCreate_nil_locked_panics:
  assumes "IsBlocked (DB p) (acct_ID a) (form_ID form) True = Inr False"
    and "GetAccountByID (DB p) (form_ID form) = Inr t"
    and "IsFollowing (DB p) a t = Inr False"
    and "IsFollowRequested (DB p) a t = Inr False"
    and "acct_ID a \<noteq> form_ID form"
    and "Put (DB p) (new_follow_request a form u) = Inr db1"
    and "acct_Locked t = None"
  shows "FollowCreate p (Some u) a form = (Inl NilPointerDereference, p\<lparr>DB := db1\<rparr>)
       \<and> follow_requests db1 = follow_requests (DB p) @ [new_follow_request a form u]
       \<and> Workers (p\<lparr>DB := db1\<rparr>) = Workers p"
proof -
  have "acct_ID t = form_ID form"
    using GetAccountByID_id [OF assms(2)] .
  then have "FollowCreate p (Some u) a form = (Inl NilPointerDereference, p\<lparr>DB := db1\<rparr>)"
    using assms by (simp add: FollowCreate_def)
  moreover have "follow_requests db1 = follow_requests (DB p) @ [new_follow_request a form u]"
    using assms(6) by (auto simp add: Put_def split: option.splits if_splits)
  ultimately show ?thesis by simp
qed

theorem FollowCreate_nil_locked_panics_witness:
  "IsBlocked (DB p_fresh) (acct_ID alice) (form_ID (follow_form dave)) True = Inr False
   \<and> GetAccountByID (DB p_fresh) (form_ID (follow_form dave)) = Inr dave
   \<and> IsFollowing (DB p_fresh) alice dave = Inr False
   \<and> IsFollowRequested (DB p_fresh) alice dave = Inr False
   \<and> acct_ID alice \<noteq> form_ID (follow_form dave)
   \<and> Put (DB p_fresh) (new_follow_request alice (follow_form dave) ''01N'')
       = Inr (db_fresh\<lparr>follow_requests := [new_follow_request alice (follow_form dave) ''01N'']\<rparr>)
   \<and> acct_Locked dave = None
   \<and> FollowCreate p_fresh (Some ''01N'') alice (follow_form dave)
       = (Inl NilPointerDereference,
          p_fresh\<lparr>DB := db_fresh\<lparr>follow_requests :=
                      [new_follow_request alice (follow_form dave) ''01N'']\<rparr>\<rparr>)"
proof -
  have h1: "IsBlocked (DB p_fresh) (acct_ID alice) (form_ID (follow_form dave)) True = Inr False"
    by (simp add: example_defs op_defs)
  have h2: "GetAccountByID (DB p_fresh) (form_ID (follow_form dave)) = Inr dave"
    by (simp add: example_defs op_defs)
  have h3: "IsFollowing (DB p_fresh) alice dave = Inr False"
    by (simp add: example_defs op_defs)
  have h4: "IsFollowRequested (DB p_fresh) alice dave = Inr False"
    by (simp add: example_defs op_defs)
  have h5: "acct_ID alice \<noteq> form_ID (follow_form dave)"
    by (simp add: example_defs)
  have h6: "Put (DB p_fresh) (new_follow_request alice (follow_form dave) ''01N'')
      = Inr (db_fresh\<lparr>follow_requests := [new_follow_request alice (follow_form dave) ''01N'']\<rparr>)"
    by (simp add: example_defs op_defs)
  have h7: "acct_Locked dave = None"
    by (simp add: example_defs)
  show ?thesis
    using FollowCreate_nil_locked_panics [OF h1 h2 h3 h4 h5 h6 h7] h1 h2 h3 h4 h5 h6 h7
    by simp
qed

section \<open>Repeated creation\<close>




section \<open>Auto-accept\<close>




section \<open>Manual accept\<close>




section \<open>Undo messages of a removal\<close>

text \<open>
  Claim C8, as stated, fails: the two Undo messages are enqueued only after both deletions
  (lines 174 to 201), and a failed deletion returns at once (lines 153 and 168). With both
  rows stored and the deletion of the Follow failing, the FollowRequest existed and has been
  deleted, yet the call returns Internal and no Undo message is enqueued for it.
\<close>

theorem FollowRemove_delete_error_no_undo:
  "request_count (DB p_delete_fault) ''01ALICE'' ''01CAROL'' = 1
   \<and> follow_count (DB p_delete_fault) ''01ALICE'' ''01CAROL'' = 1
   \<and> FollowRemove p_delete_fault alice ''01CAROL'' =
       (Inl (WithCode ErrorInternalError),
        p_delete_fault\<lparr>DB := (DB p_delete_fault)\<lparr>follow_requests := []\<rparr>\<rparr>)
   \<and> Workers (p_delete_fault\<lparr>DB := (DB p_delete_fault)\<lparr>follow_requests := []\<rparr>\<rparr>) = []"
  by (simp add: FollowRemove_def request_count_def follow_count_def example_defs op_defs)

text \<open>
  Claim C8, amended: in \<^verbatim>\<open>FollowRemove\<close>, when the block check reports no block, the
  target lookup does not report no-entries, and neither of the two row lookups nor a deletion
  fails, the FollowRequest and the Follow for the pair are looked up independently; each one
  found is deleted by its id, and for each one exactly one message is appended to the queue,
  the request's before the follow's. Every such message has object-type Follow and
  activity-type Undo, and its payload is a Follow that carries the requester id, the target
  id and the URI of the deleted row; its target account is the account the lookup returned,
  or nil when the lookup failed with another error. So two Undo messages are enqueued when
  both rows existed, one when one did, and none when neither did.
\<close>

theorem FollowRemove_undo_dispatch:
  assumes "IsBlocked (DB p) (acct_ID a) t True = Inr False"
    and "GetAccountByID (DB p) t \<noteq> Inl ErrNoEntries"
    and "failing (DB p) OpGetWhereFollowRequest = None"
    and "failing (DB p) OpGetWhereFollow = None"
    and "failing (DB p) OpDeleteFollowRequest = None"
    and "failing (DB p) OpDeleteFollow = None"
    and "tgt = (case GetAccountByID (DB p) t of Inl err \<Rightarrow> None | Inr b \<Rightarrow> Some b)"
  shows "Workers (snd (FollowRemove p a t)) =
           Workers p
           @ (case find (request_matches (acct_ID a) t) (follow_requests (DB p)) of
                None \<Rightarrow> []
              | Some fr \<Rightarrow> [undo_message a t tgt (fr_URI fr)])
           @ (case find (follow_matches (acct_ID a) t) (follows (DB p)) of
                None \<Rightarrow> []
              | Some f \<Rightarrow> [undo_message a t tgt (fo_URI f)])
       \<and> follow_requests (DB (snd (FollowRemove p a t))) =
           (case find (request_matches (acct_ID a) t) (follow_requests (DB p)) of
              None \<Rightarrow> follow_requests (DB p)
            | Some fr \<Rightarrow> filter (\<lambda>r. fr_ID r \<noteq> fr_ID fr) (follow_requests (DB p)))
       \<and> follows (DB (snd (FollowRemove p a t))) =
           (case find (follow_matches (acct_ID a) t) (follows (DB p)) of
              None \<Rightarrow> follows (DB p)
            | Some f \<Rightarrow> filter (\<lambda>f'. fo_ID f' \<noteq> fo_ID f) (follows (DB p)))
       \<and> length (Workers (snd (FollowRemove p a t))) =
           length (Workers p)
           + (if list_ex (request_matches (acct_ID a) t) (follow_requests (DB p)) then 1 else 0)
           + (if list_ex (follow_matches (acct_ID a) t) (follows (DB p)) then 1 else 0)
       \<and> (\<forall>uri. APObjectType (undo_message a t tgt uri) = ''Follow''
                \<and> APActivityType (undo_message a t tgt uri) = ''Undo''
                \<and> GTSModel (undo_message a t tgt uri) =
                    FollowModel \<lparr>fo_ID = [], fo_AccountID = acct_ID a, fo_TargetAccountID = t,
                                 fo_ShowReblogs = None, fo_URI = uri, fo_Notify = None\<rparr>)"
proof -
  have frame: "failing ((DB p)\<lparr>follow_requests := x\<rparr>) op = failing (DB p) op" for x op
    by (simp add: failing_def)
  show ?thesis
    using assms
    by (auto simp add: FollowRemove_def frame GetWhereFollowRequest_def
        GetWhereFollow_def DeleteFollowRequestByID_def DeleteFollowByID_def
        EnqueueClientAPI_def undo_message_def ActivityFollow_def ActivityUndo_def Let_def
        list_ex_find split: option.splits sum.splits)
qed

theorem FollowRemove_undo_dispatch_witness:
  "IsBlocked (DB p_both) (acct_ID alice) ''01CAROL'' True = Inr False
   \<and> GetAccountByID (DB p_both) ''01CAROL'' \<noteq> Inl ErrNoEntries
   \<and> failing (DB p_both) OpGetWhereFollowRequest = None
   \<and> failing (DB p_both) OpGetWhereFollow = None
   \<and> failing (DB p_both) OpDeleteFollowRequest = None
   \<and> failing (DB p_both) OpDeleteFollow = None
   \<and> Some carol = (case GetAccountByID (DB p_both) ''01CAROL'' of
                     Inl err \<Rightarrow> None | Inr b \<Rightarrow> Some b)
   \<and> Workers (snd (FollowRemove p_both alice ''01CAROL'')) =
       [undo_message alice ''01CAROL'' (Some carol) ''https://localhost/users/alice/follow/01R1'',
        undo_message alice ''01CAROL'' (Some carol) ''https://localhost/users/alice/follow/01F3'']
   \<and> follow_requests (DB (snd (FollowRemove p_both alice ''01CAROL''))) = []
   \<and> follows (DB (snd (FollowRemove p_both alice ''01CAROL''))) = []"
proof -
  have h1: "IsBlocked (DB p_both) (acct_ID alice) ''01CAROL'' True = Inr False"
    by (simp add: example_defs op_defs)
  have g: "GetAccountByID (DB p_both) ''01CAROL'' = Inr carol"
    by (simp add: example_defs op_defs)
  have h2: "GetAccountByID (DB p_both) ''01CAROL'' \<noteq> Inl ErrNoEntries"
    by (simp add: g)
  have h3: "failing (DB p_both) OpGetWhereFollowRequest = None"
    by (simp add: failing_def example_defs)
  have h4: "failing (DB p_both) OpGetWhereFollow = None"
    by (simp add: failing_def example_defs)
  have h5: "failing (DB p_both) OpDeleteFollowRequest = None"
    by (simp add: failing_def example_defs)
  have h6: "failing (DB p_both) OpDeleteFollow = None"
    by (simp add: failing_def example_defs)
  have h7: "Some carol = (case GetAccountByID (DB p_both) ''01CAROL'' of
                     Inl err \<Rightarrow> None | Inr b \<Rightarrow> Some b)"
    by (simp add: g)
  have w: "Workers p_both = []"
    "follow_requests (DB p_both) =
      [\<lparr>fr_ID = ''01R1'', fr_AccountID = ''01ALICE'', fr_TargetAccountID = ''01CAROL'',
            fr_ShowReblogs = Some True,
            fr_URI = ''https://localhost/users/alice/follow/01R1'',
            fr_Notify = Some False\<rparr>]"
    "follows (DB p_both) =
      [\<lparr>fo_ID = ''01F3'', fo_AccountID = ''01ALICE'', fo_TargetAccountID = ''01CAROL'',
            fo_ShowReblogs = Some True,
            fo_URI = ''https://localhost/users/alice/follow/01F3'',
            fo_Notify = Some False\<rparr>]"
    by (simp_all add: example_defs)
  have main: "Workers (snd (FollowRemove p_both alice ''01CAROL'')) =
       [undo_message alice ''01CAROL'' (Some carol) ''https://localhost/users/alice/follow/01R1'',
        undo_message alice ''01CAROL'' (Some carol) ''https://localhost/users/alice/follow/01F3'']
   \<and> follow_requests (DB (snd (FollowRemove p_both alice ''01CAROL''))) = []
   \<and> follows (DB (snd (FollowRemove p_both alice ''01CAROL''))) = []"
    using FollowRemove_undo_dispatch [OF h1 h2 h3 h4 h5 h6 h7]
    by (simp add: w request_matches_def follow_matches_def alice_def)
  show ?thesis
    using h1 h2 h3 h4 h5 h6 h7 main by blast
qed

section \<open>Lookup errors in a removal\<close>

text \<open>
  Claim C9 describes what the code should do and does not: lines 147 to 156 and 162 to 171
  delete a row only when \<^verbatim>\<open>GetWhere\<close> returned no error, and treat every error, not
  only the no-entries sentinel, as an absent row. Here alice follows carol and the lookup of
  the Follow row fails with \<^verbatim>\<open>db.ErrUnknown\<close>: \<^verbatim>\<open>FollowRemove\<close> reports
  success, returns a snapshot that still says following, deletes nothing and enqueues no
  Undo message.
\<close>

theorem FollowRemove_swallows_lookup_error:
  "GetWhereFollow (DB p_lookup_fault) ''01ALICE'' ''01CAROL'' = Inl ErrUnknown
   \<and> FollowRemove p_lookup_fault alice ''01CAROL'' =
       (Inr \<lparr>rel_ID = ''01CAROL'', rel_Following = True, rel_Requested = False,
             rel_Blocking = False, rel_BlockedBy = False\<rparr>, p_lookup_fault)"
  by (simp add: FollowRemove_def example_defs op_defs)

end
